theory Spec2Isabelle
  imports Main "HOL-Library.Sublist"
begin

section \<open>JWT authentication for a FastAPI service: the embedding\<close>

text \<open>
  The repository has three Python modules: \<^verbatim>\<open>utils.py\<close> (password hashing and token
  creation), \<^verbatim>\<open>schemas.py\<close> (the pydantic models) and \<^verbatim>\<open>app.py\<close> (the routes
  \<^verbatim>\<open>/signup\<close>, \<^verbatim>\<open>/login\<close> and \<^verbatim>\<open>/me\<close>). Python strings are modelled as
  \<^typ>\<open>string\<close>, one list element for each character of the Python string, so that
  \<open>length\<close> is Python's \<^verbatim>\<open>len\<close>. Every
  \<^verbatim>\<open>raise\<close> is a value \<open>Inl e\<close> of a sum type; the key-value store \<^verbatim>\<open>db\<close> is a
  map that each route takes and returns.
\<close>

subsection \<open>Exceptions\<close>

datatype py_error =
    HTTPException (status_code: nat) (detail: string)
  | TypeError
  | UnknownHashError
  | PasswordValueError
  | RequestValidationError

definition HTTP_400_BAD_REQUEST :: nat where
  "HTTP_400_BAD_REQUEST = 400"

subsection \<open>utils.py: constants\<close>

definition ACCESS_TOKEN_EXPIRE_MINUTES :: int where
  "ACCESS_TOKEN_EXPIRE_MINUTES = 30"

definition REFRESH_TOKEN_EXPIRE_MINUTES :: int where
  "REFRESH_TOKEN_EXPIRE_MINUTES = 60 * 24 * 7"

definition ALGORITHM :: string where
  "ALGORITHM = ''HS256''"

definition JWT_SECRET_KEY :: string where
  "JWT_SECRET_KEY = ''ashish''"

definition JWT_REFRESH_SECRET_KEY :: string where
  "JWT_REFRESH_SECRET_KEY = ''ashish''"

subsection \<open>Dates and durations\<close>

text \<open>
  A \<^verbatim>\<open>datetime\<close> is a number of seconds since the epoch (the token library writes
  \<^verbatim>\<open>exp\<close> into the token in whole seconds), a \<^verbatim>\<open>timedelta\<close> a number of seconds.
  Python's \<^verbatim>\<open>datetime + x\<close> is defined when \<^verbatim>\<open>x\<close> is a \<^verbatim>\<open>timedelta\<close> and raises
  \<^verbatim>\<open>TypeError\<close> (unsupported operand types) when \<^verbatim>\<open>x\<close> is an \<^verbatim>\<open>int\<close>.
\<close>

type_synonym datetime = int

datatype py_operand = PyInt int | PyTimedelta int

definition timedelta_minutes :: "int \<Rightarrow> py_operand" where
  "timedelta_minutes m = PyTimedelta (m * 60)"

fun datetime_add :: "datetime \<Rightarrow> py_operand \<Rightarrow> py_error + datetime" where
  "datetime_add t (PyTimedelta d) = Inr (t + d)"
| "datetime_add t (PyInt n) = Inl TypeError"

subsection \<open>The token library: \<^verbatim>\<open>jwt.encode\<close>\<close>

text \<open>
  \<^verbatim>\<open>to_encode = {"exp": ..., "sub": ...}\<close> is the record \<open>claims\<close>. A compact token
  has a header (the algorithm), the claims and a signature; its base64url framing is left
  out, so a token is the record of the three. The keyed signature (HMAC-SHA256 for
  \<^verbatim>\<open>HS256\<close>) is a parameter \<open>sign key algorithm claims\<close> of every function that
  makes or reads a token.
\<close>

record claims =
  exp :: int
  sub :: string

record token =
  header_alg :: string
  payload :: claims
  signature :: string

type_synonym signer = "string \<Rightarrow> string \<Rightarrow> claims \<Rightarrow> string"

definition jwt_encode :: "signer \<Rightarrow> claims \<Rightarrow> string \<Rightarrow> string \<Rightarrow> token" where
  "jwt_encode sign to_encode key algorithm =
     \<lparr>header_alg = algorithm, payload = to_encode, signature = sign key algorithm to_encode\<rparr>"

subsection \<open>utils.py: token creation\<close>

text \<open>
  \<^verbatim>\<open>expires_delta: int = None\<close> is an \<^typ>\<open>int option\<close>; \<open>now\<close> is what
  \<^verbatim>\<open>datetime.utcnow()\<close> returns. The subject is a string, on which \<^verbatim>\<open>str\<close> is the
  identity.
\<close>

definition create_access_token :: "signer \<Rightarrow> datetime \<Rightarrow> string \<Rightarrow> int option \<Rightarrow> py_error + token" where
  "create_access_token sign now subject expires_delta =
     (case (case expires_delta of
              Some d \<Rightarrow> datetime_add now (PyInt d)
            | None \<Rightarrow> datetime_add now (timedelta_minutes ACCESS_TOKEN_EXPIRE_MINUTES)) of
        Inl e \<Rightarrow> Inl e
      | Inr expires \<Rightarrow>
          Inr (jwt_encode sign \<lparr>exp = expires, sub = subject\<rparr> JWT_SECRET_KEY ALGORITHM))"

definition create_refresh_token :: "signer \<Rightarrow> datetime \<Rightarrow> string \<Rightarrow> int option \<Rightarrow> py_error + token" where
  "create_refresh_token sign now subject expires_delta =
     (case (case expires_delta of
              Some d \<Rightarrow> datetime_add now (PyInt d)
            | None \<Rightarrow> datetime_add now (timedelta_minutes REFRESH_TOKEN_EXPIRE_MINUTES)) of
        Inl e \<Rightarrow> Inl e
      | Inr expires \<Rightarrow>
          Inr (jwt_encode sign \<lparr>exp = expires, sub = subject\<rparr> JWT_REFRESH_SECRET_KEY ALGORITHM))"

subsection \<open>The hashing library: \<^verbatim>\<open>CryptContext(schemes=["bcrypt"])\<close>\<close>

text \<open>
  \<^verbatim>\<open>password_context\<close> is a passlib context with the one scheme \<^verbatim>\<open>bcrypt\<close>. The
  scheme's own work (the salted, slow digest and its comparison) is a parameter: the
  record \<open>CryptContext\<close> holds the scheme's \<open>hash\<close>, with the salt it draws already
  chosen, and the scheme's \<open>verify\<close>. Either may raise: the result of each is an
  error or a value (the real scheme's \<open>hash\<close> raises \<^verbatim>\<open>PasswordValueError\<close> on a
  password that holds a NUL character). What the context does
  around the scheme is modelled: \<^verbatim>\<open>verify\<close> first identifies the hash, a string
  being a bcrypt hash to it when it starts with one of the scheme's identifiers, and
  raises \<^verbatim>\<open>UnknownHashError\<close> (hash could not be identified) for any other string.
\<close>

record CryptContext =
  scheme_hash :: "string \<Rightarrow> py_error + string"
  scheme_verify :: "string \<Rightarrow> string \<Rightarrow> py_error + bool"

definition bcrypt_ident_values :: "string list" where
  "bcrypt_ident_values = [''$2$'', ''$2a$'', ''$2x$'', ''$2y$'', ''$2b$'']"

definition bcrypt_identify :: "string \<Rightarrow> bool" where
  "bcrypt_identify hash = list_ex (\<lambda>ident. prefix ident hash) bcrypt_ident_values"

definition CryptContext_hash :: "CryptContext \<Rightarrow> string \<Rightarrow> py_error + string" where
  "CryptContext_hash ctx secret = scheme_hash ctx secret"

definition CryptContext_verify :: "CryptContext \<Rightarrow> string \<Rightarrow> string \<Rightarrow> py_error + bool" where
  "CryptContext_verify ctx secret hash =
     (if bcrypt_identify hash then scheme_verify ctx secret hash else Inl UnknownHashError)"

subsection \<open>utils.py: passwords\<close>

definition get_hashed_password :: "CryptContext \<Rightarrow> string \<Rightarrow> py_error + string" where
  "get_hashed_password password_context password = CryptContext_hash password_context password"

definition verify_password :: "CryptContext \<Rightarrow> string \<Rightarrow> string \<Rightarrow> py_error + bool" where
  "verify_password password_context password hashed_pass =
     CryptContext_verify password_context password hashed_pass"

subsection \<open>schemas.py\<close>

text \<open>
  The field \<^verbatim>\<open>id\<close> is \<open>id'\<close> here; the fields of \<^verbatim>\<open>UserAuth\<close> and of the login form
  carry a prefix, since \<^verbatim>\<open>email\<close> and \<^verbatim>\<open>password\<close> are fields of \<^verbatim>\<open>SystemUser\<close>
  too. A UUID is its string. The dictionary that \<^verbatim>\<open>create_user\<close> stores has the keys
  \<^verbatim>\<open>email\<close>, \<^verbatim>\<open>password\<close> and \<^verbatim>\<open>id\<close>: it is a \<open>SystemUser\<close>.
\<close>

record TokenSchema =
  access_token :: token
  refresh_token :: token

record UserAuth =
  auth_email :: string
  auth_password :: string

record UserOut =
  id' :: string
  email :: string

record SystemUser = UserOut +
  password :: string

text \<open>
  \<^verbatim>\<open>password: str = Field(..., min_length=5, max_length=24)\<close>: building a \<^verbatim>\<open>UserAuth\<close>
  fails when the password has fewer than 5 or more than 24 characters. The route never
  runs then: the framework answers with a request validation error.
\<close>

definition UserAuth_validate :: "string \<Rightarrow> string \<Rightarrow> py_error + UserAuth" where
  "UserAuth_validate e p =
     (if length p < 5 then Inl RequestValidationError
      else if length p > 24 then Inl RequestValidationError
      else Inr \<lparr>auth_email = e, auth_password = p\<rparr>)"

subsection \<open>app.py\<close>

type_synonym db = "string \<rightharpoonup> SystemUser"

record OAuth2PasswordRequestForm =
  username :: string
  form_password :: string

text \<open>
  The status the framework answers with: 200 for a returned value, its own status code for
  an \<^verbatim>\<open>HTTPException\<close>, 422 for a request that fails validation, 500 for any other
  exception.
\<close>

fun response_status :: "py_error + 'a \<Rightarrow> nat" where
  "response_status (Inr v) = 200"
| "response_status (Inl (HTTPException c d)) = c"
| "response_status (Inl RequestValidationError) = 422"
| "response_status (Inl e) = 500"

text \<open>
  \<^verbatim>\<open>create_user(data)\<close>; \<open>uuid4\<close> is the string of the identifier that \<^verbatim>\<open>uuid4()\<close>
  draws. The dictionary \<^verbatim>\<open>user\<close> is built before it is stored, so an exception of
  \<^verbatim>\<open>get_hashed_password\<close> leaves the function before \<^verbatim>\<open>db[data.email] = user\<close>.
\<close>

definition create_user :: "CryptContext \<Rightarrow> string \<Rightarrow> db \<Rightarrow> UserAuth \<Rightarrow> (py_error + SystemUser) \<times> db" where
  "create_user password_context uuid4 db data =
     (case db (auth_email data) of
        Some user \<Rightarrow>
          (Inl (HTTPException HTTP_400_BAD_REQUEST ''User with this email already exists''), db)
      | None \<Rightarrow>
          (case get_hashed_password password_context (auth_password data) of
             Inl err \<Rightarrow> (Inl err, db)
           | Inr hashed \<Rightarrow>
               (let user = \<lparr>id' = uuid4, email = auth_email data, password = hashed\<rparr>
                in (Inr user, db(auth_email data \<mapsto> user)))))"

text \<open>
  The route \<^verbatim>\<open>POST /signup\<close>: the body is validated into a \<^verbatim>\<open>UserAuth\<close>,
  \<^verbatim>\<open>create_user\<close> runs, and \<^verbatim>\<open>response_model=UserOut\<close> keeps \<^verbatim>\<open>id\<close> and
  \<^verbatim>\<open>email\<close> of what it returns.
\<close>

definition signup :: "CryptContext \<Rightarrow> string \<Rightarrow> db \<Rightarrow> string \<Rightarrow> string \<Rightarrow> (py_error + UserOut) \<times> db" where
  "signup password_context uuid4 db e p =
     (case UserAuth_validate e p of
        Inl err \<Rightarrow> (Inl err, db)
      | Inr data \<Rightarrow>
          (case create_user password_context uuid4 db data of
             (Inl err, db') \<Rightarrow> (Inl err, db')
           | (Inr user, db') \<Rightarrow> (Inr (UserOut.truncate user), db')))"

text \<open>
  \<^verbatim>\<open>login(form_data)\<close>; \<open>now_access\<close> and \<open>now_refresh\<close> are the two readings of the
  clock, one in each token function.
\<close>

definition login :: "signer \<Rightarrow> CryptContext \<Rightarrow> datetime \<Rightarrow> datetime \<Rightarrow> db \<Rightarrow> OAuth2PasswordRequestForm
    \<Rightarrow> (py_error + TokenSchema) \<times> db" where
  "login sign password_context now_access now_refresh db form_data =
     (case db (username form_data) of
        None \<Rightarrow> (Inl (HTTPException HTTP_400_BAD_REQUEST ''Incorrect email or password''), db)
      | Some user \<Rightarrow>
          (let hashed_pass = password user in
           case verify_password password_context (form_password form_data) hashed_pass of
             Inl err \<Rightarrow> (Inl err, db)
           | Inr verified \<Rightarrow>
               if \<not> verified
               then (Inl (HTTPException HTTP_400_BAD_REQUEST ''Incorrect email or password''), db)
               else
                 (case create_access_token sign now_access (email user) None of
                    Inl err \<Rightarrow> (Inl err, db)
                  | Inr access \<Rightarrow>
                      (case create_refresh_token sign now_refresh (email user) None of
                         Inl err \<Rightarrow> (Inl err, db)
                       | Inr refresh \<Rightarrow>
                           (Inr \<lparr>access_token = access, refresh_token = refresh\<rparr>, db)))))"

subsection \<open>Reading a token\<close>

text \<open>
  Modelled from the spec: the module \<^verbatim>\<open>deps.py\<close> (\<^verbatim>\<open>get_current_user\<close>), the only
  place of the repository that decodes a token, is not among the source files. The
  specification's \<^verbatim>\<open>decode(token_string, secret)\<close> checks the signature before it
  trusts any claim and fails with \<^verbatim>\<open>InvalidSignature\<close> (tampered token or wrong
  secret), with \<^verbatim>\<open>Expired\<close> (current time at or past \<^verbatim>\<open>exp\<close>) or with
  \<^verbatim>\<open>Malformed\<close> (not parseable, which no value of \<^typ>\<open>token\<close> is).
\<close>

datatype decode_error = InvalidSignature | Expired | Malformed

definition decode :: "signer \<Rightarrow> datetime \<Rightarrow> token \<Rightarrow> string \<Rightarrow> decode_error + claims" where
  "decode sign now tok secret =
     (if signature tok \<noteq> sign secret (header_alg tok) (payload tok) then Inl InvalidSignature
      else if exp (payload tok) \<le> now then Inl Expired
      else Inr (payload tok))"

subsection \<open>Stand-ins for concrete runs\<close>


definition demo_context :: CryptContext where
  "demo_context =
     \<lparr>scheme_hash = (\<lambda>secret. if CHR 0x00 \<in> set secret then Inl PasswordValueError
                                else Inr (''$2b$'' @ secret)),
      scheme_verify = (\<lambda>secret hash. Inr (hash = ''$2b$'' @ secret))\<rparr>"

definition demo_user :: SystemUser where
  "demo_user = \<lparr>id' = ''id-1'', email = ''a@x.com'', password = ''$2b$secret1''\<rparr>"

definition demo_db :: db where
  "demo_db = Map.empty(''a@x.com'' \<mapsto> demo_user)"

section \<open>Properties\<close>

text \<open>
  C10: for every subject, \<open>create_access_token\<close> and \<open>create_refresh_token\<close> called with
  an \<open>expires_delta\<close> that is not \<open>None\<close> raise (an integer is added to a datetime, a
  \<open>TypeError\<close>) and produce no token; called with \<open>None\<close> they return one.
\<close>

theorem expires_delta_given_raises:
  "create_access_token sign now subject (Some d) = Inl TypeError
   \<and> create_refresh_token sign now subject (Some d) = Inl TypeError
   \<and> (\<exists>t. create_access_token sign now subject None = Inr t)
   \<and> (\<exists>t. create_refresh_token sign now subject None = Inr t)"
  by (simp add: create_access_token_def create_refresh_token_def timedelta_minutes_def)

text \<open>
  C9: \<open>login\<close> writes nothing to the account store. Whatever the request and the store,
  and whether it returns the two tokens or raises, the store it leaves is the store it
  was given.
\<close>

theorem login_store_unchanged:
  "snd (login sign password_context now_access now_refresh db form_data) = db"
  by (simp add: login_def Let_def split: option.split sum.split)



text \<open>
  C8: a signup password is accepted exactly when it has between 5 and 24 characters.
  A signup that returns a user had such a password, and a signup with a shorter or longer
  one is refused with a validation error and leaves the store as it was: no record is
  created.
\<close>

theorem signup_password_length:
  "((\<exists>data. UserAuth_validate e p = Inr data) = (5 \<le> length p \<and> length p \<le> 24))
   \<and> ((\<exists>out db'. signup password_context uuid4 db e p = (Inr out, db'))
        \<longrightarrow> 5 \<le> length p \<and> length p \<le> 24)
   \<and> (\<not> (5 \<le> length p \<and> length p \<le> 24)
        \<longrightarrow> signup password_context uuid4 db e p = (Inl RequestValidationError, db))"
  by (auto simp add: UserAuth_validate_def signup_def split: if_splits)

theorem signup_password_length_witness:
  "signup demo_context ''id-2'' demo_db ''b@x.com'' ''abcd''
     = (Inl RequestValidationError, demo_db)
   \<and> signup demo_context ''id-2'' demo_db ''b@x.com'' ''abcdefghijklmnopqrstuvwxy''
     = (Inl RequestValidationError, demo_db)
   \<and> (\<exists>data. UserAuth_validate ''b@x.com'' ''abcde'' = Inr data)"
  using signup_password_length [of "''b@x.com''" "''abcd''" demo_context "''id-2''" demo_db]
    signup_password_length
      [of "''b@x.com''" "''abcdefghijklmnopqrstuvwxy''" demo_context "''id-2''" demo_db]
    signup_password_length [of "''b@x.com''" "''abcde''" demo_context "''id-2''" demo_db]
  by simp

text \<open>
  C2, as the code has it: for a signup request whose password has between 5 and 24
  characters, \<open>signup\<close> on an email that the store already holds raises an
  \<open>HTTPException\<close> of status 400 (not 409) with the detail
  \<^verbatim>\<open>User with this email already exists\<close> and leaves the store unchanged; on an email
  that the store does not hold, when hashing the password returns a hash, it stores a new
  record (the email, the hash, the new identifier) under that email and answers with the
  identifier and the email.
\<close>

theorem signup_duplicate_or_created:
  assumes "5 \<le> length p" and "length p \<le> 24"
  shows "(db e \<noteq> None \<longrightarrow>
      signup password_context uuid4 db e p
        = (Inl (HTTPException 400 ''User with this email already exists''), db))
   \<and> (db e = None \<and> get_hashed_password password_context p = Inr hashed \<longrightarrow>
      signup password_context uuid4 db e p
        = (Inr \<lparr>id' = uuid4, email = e\<rparr>,
           db(e \<mapsto> \<lparr>id' = uuid4, email = e, password = hashed\<rparr>)))"
  using assms
  by (auto simp add: signup_def UserAuth_validate_def create_user_def HTTP_400_BAD_REQUEST_def
      Let_def UserOut.truncate_def)

theorem signup_duplicate_or_created_witness:
  "signup demo_context ''id-2'' demo_db ''a@x.com'' ''secret1''
     = (Inl (HTTPException 400 ''User with this email already exists''), demo_db)
   \<and> get_hashed_password demo_context ''secret2'' = Inr ''$2b$secret2''
   \<and> signup demo_context ''id-2'' demo_db ''b@x.com'' ''secret2''
     = (Inr \<lparr>id' = ''id-2'', email = ''b@x.com''\<rparr>,
        demo_db(''b@x.com'' \<mapsto> \<lparr>id' = ''id-2'', email = ''b@x.com'', password = ''$2b$secret2''\<rparr>))"
proof -
  have len1: "5 \<le> length ''secret1''" "length ''secret1'' \<le> 24"
    by simp_all
  have len2: "5 \<le> length ''secret2''" "length ''secret2'' \<le> 24"
    by simp_all
  have present: "demo_db ''a@x.com'' \<noteq> None"
    by (simp add: demo_db_def)
  have absent: "demo_db ''b@x.com'' = None"
    by (simp add: demo_db_def)
  have hashed: "get_hashed_password demo_context ''secret2'' = Inr ''$2b$secret2''"
    by (simp add: get_hashed_password_def CryptContext_hash_def demo_context_def)
  from signup_duplicate_or_created
      [OF len1, where db = demo_db and e = "''a@x.com''" and password_context = demo_context
        and ?uuid4.0 = "''id-2''"]
    signup_duplicate_or_created
      [OF len2, where db = demo_db and e = "''b@x.com''" and password_context = demo_context
        and ?uuid4.0 = "''id-2''" and hashed = "''$2b$secret2''"]
    present absent hashed
  show ?thesis by simp
qed

text \<open>
  C2, as the specification words it, fails: a second signup with the email of the stored
  account is answered with status 400, which is not 409.
\<close>

theorem signup_duplicate_status_400:
  "response_status (fst (signup demo_context ''id-2'' demo_db ''a@x.com'' ''secret1'')) = 400
   \<and> response_status (fst (signup demo_context ''id-2'' demo_db ''a@x.com'' ''secret1'')) \<noteq> 409"
  by (simp add: signup_def UserAuth_validate_def create_user_def demo_db_def
      HTTP_400_BAD_REQUEST_def)

text \<open>
  C4 does not hold of the code: \<open>verify_password\<close> has no handler around the library
  call. On the malformed hash \<^verbatim>\<open>not-a-hash\<close>, which starts with no bcrypt identifier,
  it does not return false: it raises \<open>UnknownHashError\<close>, whatever the bcrypt scheme of
  the context does.
\<close>

theorem verify_password_malformed_hash_throws:
  "verify_password password_context ''secret1'' ''not-a-hash'' = Inl UnknownHashError
   \<and> verify_password password_context ''secret1'' ''not-a-hash'' \<noteq> Inr False"
  by (simp add: verify_password_def CryptContext_verify_def bcrypt_identify_def
      bcrypt_ident_values_def)

text \<open>
  C1 does not hold of the code: \<open>JWT_SECRET_KEY\<close> and \<open>JWT_REFRESH_SECRET_KEY\<close> are the
  same string. For the subject \<^verbatim>\<open>a@x.com\<close> and any signature function, the refresh
  token decodes with the access secret, and the access token with the refresh secret,
  to the claims it was made from; neither is refused with \<open>InvalidSignature\<close>.
\<close>

theorem refresh_token_decodes_with_access_secret:
  "(\<exists>t. create_refresh_token sign now ''a@x.com'' None = Inr t
        \<and> decode sign now t JWT_SECRET_KEY = Inr \<lparr>exp = now + 604800, sub = ''a@x.com''\<rparr>)
   \<and> (\<exists>t. create_access_token sign now ''a@x.com'' None = Inr t
        \<and> decode sign now t JWT_REFRESH_SECRET_KEY
            = Inr \<lparr>exp = now + 1800, sub = ''a@x.com''\<rparr>)"
  by (simp add: create_access_token_def create_refresh_token_def timedelta_minutes_def
      decode_def jwt_encode_def JWT_SECRET_KEY_def JWT_REFRESH_SECRET_KEY_def
      ACCESS_TOKEN_EXPIRE_MINUTES_def REFRESH_TOKEN_EXPIRE_MINUTES_def)

text \<open>
  C3 does not hold of the code: with a lifetime of 0 or of -60 seconds, no token results
  that could be expired. \<open>create_access_token\<close> and \<open>create_refresh_token\<close> raise
  \<open>TypeError\<close>.
\<close>

theorem nonpositive_expires_delta_raises:
  "create_access_token sign now ''a@x.com'' (Some 0) = Inl TypeError
   \<and> create_access_token sign now ''a@x.com'' (Some (- 60)) = Inl TypeError
   \<and> create_refresh_token sign now ''a@x.com'' (Some 0) = Inl TypeError"
  by (simp add: create_access_token_def create_refresh_token_def)

text \<open>
  C5 does not hold of the code: with the positive lifetime 1800 there is no token to
  decode. \<open>create_access_token\<close> raises \<open>TypeError\<close>.
\<close>

theorem positive_expires_delta_raises:
  "create_access_token sign now ''a@x.com'' (Some 1800) = Inl TypeError"
  by (simp add: create_access_token_def)

subsection \<open>Supporting facts about signup\<close>

text \<open>
  When hashing the password raises, \<open>create_user\<close> raises the same exception and nothing
  is stored. A valid-length password with a NUL character is such a request for the
  stand-in scheme: no record is created and the answer has status 500.
\<close>

lemma signup_hash_raises_stores_nothing:
  assumes "5 \<le> length p" and "length p \<le> 24"
    and "db e = None" and "get_hashed_password password_context p = Inl err"
  shows "signup password_context uuid4 db e p = (Inl err, db)"
  using assms by (simp add: signup_def UserAuth_validate_def create_user_def)

lemma signup_nul_password_demo:
  "signup demo_context ''id-2'' demo_db ''b@x.com'' (''abc'' @ [CHR 0x00] @ ''de'')
     = (Inl PasswordValueError, demo_db)
   \<and> response_status (fst (signup demo_context ''id-2'' demo_db ''b@x.com''
         (''abc'' @ [CHR 0x00] @ ''de''))) = 500"
  by (simp add: signup_def UserAuth_validate_def create_user_def get_hashed_password_def
      CryptContext_hash_def demo_context_def demo_db_def)

subsection \<open>Supporting facts about the token codec\<close>

text \<open>
  Decoding what \<open>jwt_encode\<close> made, with the key it was made with: the claims come back
  unless the expiry time has been reached.
\<close>

lemma decode_jwt_encode:
  "decode sign now (jwt_encode sign \<lparr>exp = e, sub = s\<rparr> key algorithm) key
     = (if e \<le> now then Inl Expired else Inr \<lparr>exp = e, sub = s\<rparr>)"
  by (simp add: decode_def jwt_encode_def)

text \<open>
  On the default path (no \<open>expires_delta\<close>) both token functions return a token that,
  decoded at once with the secret of its kind, gives back the subject.
\<close>

lemma default_token_round_trip:
  "(\<exists>t. create_access_token sign now s None = Inr t
        \<and> decode sign now t JWT_SECRET_KEY = Inr \<lparr>exp = now + 1800, sub = s\<rparr>)
   \<and> (\<exists>t. create_refresh_token sign now s None = Inr t
        \<and> decode sign now t JWT_REFRESH_SECRET_KEY = Inr \<lparr>exp = now + 604800, sub = s\<rparr>)"
  by (simp add: create_access_token_def create_refresh_token_def timedelta_minutes_def
      decode_def jwt_encode_def ACCESS_TOKEN_EXPIRE_MINUTES_def
      REFRESH_TOKEN_EXPIRE_MINUTES_def)

end
